theory Spec2Isabelle
  imports Main
begin

section \<open>The node helper of MMM-WmataBusSchedule\<close>

text \<open>
  A shallow embedding of \<^verbatim>\<open>node_helper.js\<close>: the schedule gate
  \<^verbatim>\<open>shouldWeFetchCommuteData\<close>, the three fetch operations and the entry point
  \<^verbatim>\<open>socketNotificationReceived\<close>. The helper keeps no state between invocations;
  what one invocation does to the outside (HTTP calls, socket notifications, console
  lines) is returned as a record of effects. The clock and the network are inputs.
\<close>

subsection \<open>Configuration\<close>

text \<open>
  The payload of both notifications, with the fields the code reads. The gate tests
  \<^verbatim>\<open>'schedule' in config\<close>, so the schedule is optional. Every other field is read
  without a test (\<^verbatim>\<open>payload.places.destinations.length\<close>,
  \<^verbatim>\<open>config.places.home.lat\<close>), so the record carries it; the destination list may be
  empty. A coordinate is held as the text that the template literal
  \<^verbatim>\<open>`${lat},${lon}`\<close> renders for it.
\<close>

record times_cfg =
  start :: string
  stop :: string

record schedule =
  days :: "nat list"
  times_cfg :: times_cfg

record latlon =
  lat :: string
  lon :: string

record destination = latlon +
  name :: string

record places =
  home :: latlon
  destinations :: "destination list"

record config =
  busStopId :: string
  wmataApiKey :: string
  googleApiKey :: string
  schedule :: "schedule option"
  places :: places

subsection \<open>The clock (moment)\<close>

text \<open>
  \<^verbatim>\<open>moment()\<close> wraps a \<^verbatim>\<open>Date\<close>: an instant, read in the local time zone. The code
  reads \<^verbatim>\<open>day()\<close>, the local weekday (0 is Sunday), and \<^verbatim>\<open>minute()\<close>, the minute of
  the local wall clock; it builds two more moments on the local date of today; and it
  compares the three as instants. A reading of the clock holds
  \<^item> \<open>valueOf\<close>, the instant in milliseconds since the epoch,
  \<^item> \<open>day\<close> and \<open>msOfDay\<close>, the local weekday and the local wall-clock time of day in
    milliseconds,
  \<^item> \<open>dateAt\<close>, the time zone on today's date: \<open>dateAt now t\<close> is the instant of
    \<^verbatim>\<open>new Date(year, month, date, 0, 0, 0, t)\<close> for the local date of \<open>now\<close>, the
    instant at which today's wall clock shows \<open>t\<close> milliseconds. On a day with a change
    of the UTC offset the constructor moves a skipped wall time forward and takes a
    repeated one at its first occurrence, so \<open>dateAt\<close> need not run in step with
    \<open>t\<close>.
  The gate reads the clock three times in a row (in both parses, for the date of today,
  and for \<open>now\<close>); the model takes them as one reading.
\<close>

record moment =
  valueOf :: int
  day :: nat
  msOfDay :: nat
  dateAt :: "nat \<Rightarrow> int"

definition minute :: "moment \<Rightarrow> nat" where
  "minute now = (msOfDay now div 60000) mod 60"

definition msOfHourMinute :: "nat \<Rightarrow> nat \<Rightarrow> nat" where
  "msOfHourMinute h m = h * 3600000 + m * 60000"

text \<open>
  \<^verbatim>\<open>moment(text, 'HH:mm a')\<close> parses forgivingly. The format has the tokens
  \<^verbatim>\<open>HH\<close>, \<^verbatim>\<open>:\<close>, \<^verbatim>\<open>mm\<close>, a space and \<^verbatim>\<open>a\<close>. For each token in turn moment
  searches the rest of the text for the first match of the token's pattern, skips what
  stands before the match and goes on behind it; a token with no match leaves the text as
  it is. The patterns are one or two digits for \<^verbatim>\<open>HH\<close> and \<^verbatim>\<open>mm\<close>, the character
  itself for the colon and the space, and \<^verbatim>\<open>/[ap]\.?m?\.?/i\<close> for the meridiem.
\<close>

definition digit_of :: "char \<Rightarrow> nat option" where
  "digit_of c =
     (let n = (of_char c :: nat) in if 48 \<le> n \<and> n \<le> 57 then Some (n - 48) else None)"

fun match1to2 :: "string \<Rightarrow> (nat \<times> string) option" where
  "match1to2 [] = None"
| "match1to2 (c # s) =
     (case digit_of c of
        None \<Rightarrow> match1to2 s
      | Some a \<Rightarrow>
          (case s of
             [] \<Rightarrow> Some (a, [])
           | d # r \<Rightarrow>
               (case digit_of d of
                  None \<Rightarrow> Some (a, s)
                | Some b \<Rightarrow> Some (10 * a + b, r))))"

fun literal :: "char \<Rightarrow> string \<Rightarrow> string option" where
  "literal x [] = None"
| "literal x (c # s) = (if c = x then Some s else literal x s)"

text \<open>The meridiem: whether the first match starts with \<^verbatim>\<open>p\<close> or \<^verbatim>\<open>P\<close> (\<^verbatim>\<open>isPM\<close>).\<close>

fun meridiemParse :: "string \<Rightarrow> bool option" where
  "meridiemParse [] = None"
| "meridiemParse (c # s) =
     (if c = CHR ''p'' \<or> c = CHR ''P'' then Some True
      else if c = CHR ''a'' \<or> c = CHR ''A'' then Some False
      else meridiemParse s)"

definition meridiemFixWrap :: "nat option \<Rightarrow> bool option \<Rightarrow> nat option" where
  "meridiemFixWrap hour meridiem =
     (case meridiem of
        None \<Rightarrow> hour
      | Some isPm \<Rightarrow>
          (case hour of
             None \<Rightarrow> None
           | Some h \<Rightarrow>
               Some (if isPm \<and> h < 12 then h + 12
                     else if \<not> isPm \<and> h = 12 then 0
                     else h)))"

text \<open>
  The hour and the minute of the parsed text, or \<open>None\<close> for an invalid moment: one
  where neither number was found, or where the hour is over 24, or is 24 with a minute
  other than 0, or the minute is over 59. A part that was not found is 0.
\<close>

definition configFromStringAndFormat :: "string \<Rightarrow> (nat \<times> nat) option" where
  "configFromStringAndFormat text =
     (let (hour, s1) =
            (case match1to2 text of None \<Rightarrow> (None, text) | Some (n, r) \<Rightarrow> (Some n, r));
          s2 = (case literal CHR '':'' s1 of None \<Rightarrow> s1 | Some r \<Rightarrow> r);
          (minute, s3) =
            (case match1to2 s2 of None \<Rightarrow> (None, s2) | Some (n, r) \<Rightarrow> (Some n, r));
          s4 = (case literal CHR '' '' s3 of None \<Rightarrow> s3 | Some r \<Rightarrow> r);
          meridiem = meridiemParse s4;
          h = (case meridiemFixWrap hour meridiem of None \<Rightarrow> 0 | Some n \<Rightarrow> n);
          m = (case minute of None \<Rightarrow> 0 | Some n \<Rightarrow> n)
      in if hour = None \<and> minute = None then None
         else if 24 < h \<or> (h = 24 \<and> m \<noteq> 0) \<or> 59 < m then None
         else Some (h, m))"

text \<open>
  The moment itself: today's date at that hour and minute of the wall clock, as the
  \<^verbatim>\<open>Date\<close> constructor resolves it (24:00 is the start of the next day). Only its
  instant is read.
\<close>

definition moment_HHmm :: "moment \<Rightarrow> string \<Rightarrow> int option" where
  "moment_HHmm today text =
     (case configFromStringAndFormat text of
        None \<Rightarrow> None
      | Some (h, m) \<Rightarrow> Some (dateAt today (msOfHourMinute h m)))"

text \<open>
  \<^verbatim>\<open>now.isBetween(from, to)\<close>, called as the code calls it, with neither a unit nor an
  inclusivity argument: moment compares the instants, to the millisecond, and its default
  inclusivity is \<^verbatim>\<open>'()'\<close>, both ends excluded; with an invalid moment on either side
  it is false.
\<close>

definition isBetween :: "moment \<Rightarrow> int option \<Rightarrow> int option \<Rightarrow> bool" where
  "isBetween now from to =
     (case (from, to) of
        (Some a, Some b) \<Rightarrow> a < valueOf now \<and> valueOf now < b
      | _ \<Rightarrow> False)"

subsection \<open>The schedule gate\<close>

definition shouldWeFetchCommuteData :: "moment \<Rightarrow> config \<Rightarrow> bool" where
  "shouldWeFetchCommuteData now config =
     (case schedule config of
        Some sched \<Rightarrow>
          (let startTime = moment_HHmm now (start (times_cfg sched));
               endTime = moment_HHmm now (stop (times_cfg sched))
           in if day now \<in> set (days sched) \<and> isBetween now startTime endTime
              then True else False)
      | None \<Rightarrow> True)"

subsection \<open>HTTP calls (axios) and promises\<close>

text \<open>
  \<^verbatim>\<open>axios(axiosConfig)\<close> returns a promise that settles at some time, either rejected
  with an error (the \<^verbatim>\<open>await\<close> throws) or fulfilled with a response, of which the code
  reads \<^verbatim>\<open>status\<close> and \<^verbatim>\<open>data\<close>. The fetch operations take that promise as an
  input.
\<close>

record request =
  method' :: string
  url :: string
  params :: "(string \<times> string) list"

record response =
  status :: nat
  data :: string

datatype error = AxiosError string | RequestFailed response

type_synonym network = "request \<Rightarrow> nat \<times> (error + response)"

text \<open>
  What axios makes of the provider's answer. The code passes only \<^verbatim>\<open>method\<close>,
  \<^verbatim>\<open>url\<close> and \<^verbatim>\<open>params\<close>, so \<^verbatim>\<open>validateStatus\<close> is the default: a response
  fulfils the promise when its status is from 200 to 299, and any other status rejects
  it with an error that carries the response. A call with no answer (\<open>Inl\<close>) is rejected
  as it is.
\<close>

definition validateStatus :: "nat \<Rightarrow> bool" where
  "validateStatus s = (200 \<le> s \<and> s < 300)"

definition axiosDefault :: "(request \<Rightarrow> nat \<times> (error + response)) \<Rightarrow> network" where
  "axiosDefault provider axiosConfig =
     (case provider axiosConfig of
        (t, Inl err) \<Rightarrow> (t, Inl err)
      | (t, Inr answer) \<Rightarrow>
          if validateStatus (status answer) then (t, Inr answer)
          else (t, Inl (RequestFailed answer)))"

text \<open>
  The promise an async fetch function returns: the call it issued, the time it settles
  and how. A thrown error is a rejection, \<open>Inl\<close>.
\<close>

record 'a promise =
  issued :: request
  settledAt :: nat
  outcome :: "error + 'a"

text \<open>
  A Fetch Result is the object literal the code returns: its fields in the order written.
\<close>

datatype field = Payload string | Text string | Number nat | Flag bool

type_synonym fetch_result = "(string \<times> field) list"

subsection \<open>The three fetch operations\<close>

definition fetchNextBus :: "network \<Rightarrow> config \<Rightarrow> fetch_result promise" where
  "fetchNextBus axios config =
     (let axiosConfig =
            \<lparr>method' = ''get'',
             url = ''https://api.wmata.com/NextBusService.svc/json/jPredictions'',
             params = [(''StopID'', busStopId config), (''api_key'', wmataApiKey config)]\<rparr>
      in case axios axiosConfig of
           (t, Inl err) \<Rightarrow> \<lparr>issued = axiosConfig, settledAt = t, outcome = Inl err\<rparr>
         | (t, Inr scheduleResponse) \<Rightarrow>
             \<lparr>issued = axiosConfig, settledAt = t,
              outcome = Inr
                (if status scheduleResponse = 200
                 then [(''data'', Payload (data scheduleResponse)),
                       (''processor'', Text ''processBusPredictorData''),
                       (''success'', Flag True)]
                 else [(''status'', Number (status scheduleResponse)),
                       (''success'', Flag False)])\<rparr>)"

definition fetchStopSchedule :: "network \<Rightarrow> config \<Rightarrow> fetch_result promise" where
  "fetchStopSchedule axios config =
     (let axiosConfig =
            \<lparr>method' = ''get'',
             url = ''https://api.wmata.com/Bus.svc/json/jStopSchedule'',
             params = [(''StopID'', busStopId config), (''api_key'', wmataApiKey config)]\<rparr>
      in case axios axiosConfig of
           (t, Inl err) \<Rightarrow> \<lparr>issued = axiosConfig, settledAt = t, outcome = Inl err\<rparr>
         | (t, Inr sctopResponse) \<Rightarrow>
             \<lparr>issued = axiosConfig, settledAt = t,
              outcome = Inr
                (if status sctopResponse = 200
                 then [(''data'', Payload (data sctopResponse)),
                       (''processor'', Text ''processStopData''),
                       (''success'', Flag True)]
                 else [(''status'', Number (status sctopResponse)),
                       (''success'', Flag False)])\<rparr>)"

definition fetchTimeToWork ::
  "network \<Rightarrow> config \<Rightarrow> destination \<Rightarrow> fetch_result promise" where
  "fetchTimeToWork axios config destination =
     (let axiosConfig =
            \<lparr>method' = ''get'',
             url = ''https://maps.googleapis.com/maps/api/directions/json'',
             params =
               [(''origin'', lat (home (places config)) @ '','' @ lon (home (places config))),
                (''destination'', lat destination @ '','' @ lon destination),
                (''key'', googleApiKey config),
                (''mode'', ''transit'')]\<rparr>
      in case axios axiosConfig of
           (t, Inl err) \<Rightarrow> \<lparr>issued = axiosConfig, settledAt = t, outcome = Inl err\<rparr>
         | (t, Inr commuteResponse) \<Rightarrow>
             \<lparr>issued = axiosConfig, settledAt = t,
              outcome = Inr
                (if status commuteResponse = 200
                 then [(''data'', Payload (data commuteResponse)),
                       (''name'', Text (name destination)),
                       (''processor'', Text ''processCommuteData''),
                       (''success'', Flag True)]
                 else [(''status'', Number (status commuteResponse)),
                       (''success'', Flag False)])\<rparr>)"

subsection \<open>Promise.all\<close>

text \<open>
  \<^verbatim>\<open>Promise.all\<close> fulfils with the values in the order of the array once every promise
  has fulfilled, and rejects with the reason of the rejection that happens first (the
  earlier one in the array when two settle together).
\<close>

definition fulfilled :: "'a promise \<Rightarrow> bool" where
  "fulfilled p = (case outcome p of Inr v \<Rightarrow> True | Inl e \<Rightarrow> False)"

fun resolved :: "'a promise list \<Rightarrow> 'a list" where
  "resolved [] = []"
| "resolved (p # ps) = (case outcome p of Inr v \<Rightarrow> v # resolved ps | Inl e \<Rightarrow> resolved ps)"

fun firstRejection :: "'a promise list \<Rightarrow> (nat \<times> error) option" where
  "firstRejection [] = None"
| "firstRejection (p # ps) =
     (case outcome p of
        Inr v \<Rightarrow> firstRejection ps
      | Inl e \<Rightarrow>
          (case firstRejection ps of
             None \<Rightarrow> Some (settledAt p, e)
           | Some (t, e') \<Rightarrow> if t < settledAt p then Some (t, e') else Some (settledAt p, e)))"

definition promise_all :: "'a promise list \<Rightarrow> error + 'a list" where
  "promise_all ps =
     (case firstRejection ps of
        Some (t, e) \<Rightarrow> Inl e
      | None \<Rightarrow> Inr (resolved ps))"

subsection \<open>The entry point\<close>

text \<open>
  What one invocation does to the outside: the HTTP calls it issues, the notifications it
  sends with \<^verbatim>\<open>sendSocketNotification\<close> and the lines it writes with
  \<^verbatim>\<open>console.log\<close>, each in order.
\<close>

datatype sent = NoPayload | One fetch_result | Many "fetch_result list"

datatype log = Msg string | Err error

record effects =
  httpCalls :: "request list"
  notifications :: "(string \<times> sent) list"
  console :: "log list"

definition nothing :: effects where
  "nothing = \<lparr>httpCalls = [], notifications = [], console = []\<rparr>"

definition sendSocketNotification :: "string \<Rightarrow> sent \<Rightarrow> effects \<Rightarrow> effects" where
  "sendSocketNotification notification payload fx =
     fx\<lparr>notifications := notifications fx @ [(notification, payload)]\<rparr>"

definition console_log :: "log \<Rightarrow> effects \<Rightarrow> effects" where
  "console_log line fx = fx\<lparr>console := console fx @ [line]\<rparr>"

text \<open>
  The surroundings of one invocation: the clock as the gate reads it, the clock as the
  commute branch reads it a moment later, and the network, which answers the n-th call of
  the invocation (counted from 0).
\<close>

record world =
  gateNow :: moment
  batchNow :: moment
  axios :: "nat \<Rightarrow> network"

definition onFetchStopSchedule :: "world \<Rightarrow> config \<Rightarrow> effects \<Rightarrow> effects" where
  "onFetchStopSchedule w payload fx =
     (let p = fetchStopSchedule (axios w (length (httpCalls fx))) payload;
          fx1 = fx\<lparr>httpCalls := httpCalls fx @ [issued p]\<rparr>
      in case outcome p of
           Inr stopSchedule \<Rightarrow>
             sendSocketNotification ''MMM-WmataBusSchedule-BUS_STOP_DATA'' (One stopSchedule) fx1
         | Inl err \<Rightarrow>
             console_log (Err err)
               (console_log (Msg ''Error firing requests to WMATA API!'') fx1))"

definition onFetchCommute :: "world \<Rightarrow> config \<Rightarrow> effects \<Rightarrow> effects" where
  "onFetchCommute w payload fx =
     (let fx1 = console_log (Msg ''We are fetching bus schedule/commute data'') fx;
          n = length (httpCalls fx1);
          first = fetchNextBus (axios w n) payload;
          pushed =
            (if minute (batchNow w) mod 2 = 0
             then map (\<lambda>i. fetchTimeToWork (axios w (n + 1 + i)) payload
                              (destinations (places payload) ! i))
                    [0..<length (destinations (places payload))]
             else []);
          requests = first # pushed;
          fx2 = fx1\<lparr>httpCalls := httpCalls fx1 @ map issued requests\<rparr>;
          fx3 =
            (if minute (batchNow w) mod 2 = 0 then fx2
             else console_log (Msg ''We are not fetching the COmmute right now.'') fx2)
      in case promise_all requests of
           Inr responses \<Rightarrow>
             sendSocketNotification ''MMM-WmataBusSchedule-COMMUTE_DATA'' (Many responses) fx3
         | Inl err \<Rightarrow>
             console_log (Err err)
               (console_log (Msg ''Error firing requests to Google/WMATA APIs!'') fx3))"

definition socketNotificationReceived :: "world \<Rightarrow> string \<Rightarrow> config \<Rightarrow> effects" where
  "socketNotificationReceived w notification payload =
     (let weShouldFetch = shouldWeFetchCommuteData (gateNow w) payload
      in if weShouldFetch then
           (let fx =
                  (if notification = ''MMM-WmataBusSchedule-FETCH_STOP_SCHEDULE''
                   then onFetchStopSchedule w payload nothing else nothing)
            in if notification = ''MMM-WmataBusSchedule-FETCH_COMMUTE''
               then onFetchCommute w payload fx else fx)
         else sendSocketNotification ''MMM-WmataBusSchedule-TEAR-DOWN-DOM'' NoPayload nothing)"

section \<open>Vocabulary of the properties\<close>

text \<open>The text \<^verbatim>\<open>HH:mm\<close> of an hour and a minute, to state the theorems with.\<close>

definition digit_char :: "nat \<Rightarrow> char" where
  "digit_char n = char_of (48 + n)"

definition hhmm :: "nat \<Rightarrow> nat \<Rightarrow> string" where
  "hhmm h m =
     [digit_char (h div 10), digit_char (h mod 10), CHR '':'',
      digit_char (m div 10), digit_char (m mod 10)]"

text \<open>
  The first says that today's wall time \<open>t\<close> is resolved with the UTC offset that is in
  force now: the two instants are as far apart as the two wall-clock times. It holds for
  every \<open>t\<close> on a day with no change of the offset. The second is a reading on such a
  day, from the instant of its local midnight.
\<close>

definition sameOffset :: "moment \<Rightarrow> nat \<Rightarrow> bool" where
  "sameOffset now t = (dateAt now t - int t = valueOf now - int (msOfDay now))"

definition ordinaryDay :: "int \<Rightarrow> nat \<Rightarrow> nat \<Rightarrow> moment" where
  "ordinaryDay midnight weekday t =
     \<lparr>valueOf = midnight + int t, day = weekday, msOfDay = t,
      dateAt = (\<lambda>s. midnight + int s)\<rparr>"

text \<open>
  The two shapes of a Fetch Result that the specification names: success with a payload,
  failure with a status code.
\<close>

definition successRecord :: "fetch_result \<Rightarrow> bool" where
  "successRecord r =
     (map_of r ''success'' = Some (Flag True) \<and>
      (case map_of r ''data'' of Some (Payload d) \<Rightarrow> True | _ \<Rightarrow> False))"

definition failureRecord :: "fetch_result \<Rightarrow> bool" where
  "failureRecord r =
     (map_of r ''success'' = Some (Flag False) \<and>
      (case map_of r ''status'' of Some (Number n) \<Rightarrow> True | _ \<Rightarrow> False))"

subsection \<open>Concrete configurations, clocks and networks\<close>

text \<open>
  The configurations of the specification's scenarios: weekdays from 08:00 to 09:00, the
  same stop with no schedule, and an overnight window from 22:00 to 06:00.
\<close>

definition officeHours :: config where
  "officeHours =
     \<lparr>busStopId = ''1001'', wmataApiKey = ''wmata-key'', googleApiKey = ''google-key'',
      schedule =
        Some \<lparr>days = [1, 2, 3, 4, 5], times_cfg = \<lparr>start = ''08:00'', stop = ''09:00''\<rparr>\<rparr>,
      places =
        \<lparr>home = \<lparr>lat = ''38.90'', lon = ''-77.03''\<rparr>,
         destinations =
           [\<lparr>lat = ''38.88'', lon = ''-77.01'', name = ''Work''\<rparr>,
            \<lparr>lat = ''38.92'', lon = ''-77.07'', name = ''Gym''\<rparr>]\<rparr>\<rparr>"

definition alwaysOn :: config where
  "alwaysOn = officeHours\<lparr>schedule := None\<rparr>"

definition overnight :: config where
  "overnight =
     officeHours\<lparr>schedule :=
       Some \<lparr>days = [0, 1, 2, 3, 4, 5, 6],
             times_cfg = \<lparr>start = ''22:00'', stop = ''06:00''\<rparr>\<rparr>\<rparr>"

text \<open>
  Two Sunday schedules for the days on which the clocks change: a window from 03:00 to
  02:30, whose stop time is the earlier one, and a window from 01:00 to 01:45.
\<close>

definition sundayGap :: config where
  "sundayGap =
     officeHours\<lparr>schedule :=
       Some \<lparr>days = [0], times_cfg = \<lparr>start = ''03:00'', stop = ''02:30''\<rparr>\<rparr>\<rparr>"

definition sundayNight :: config where
  "sundayNight =
     officeHours\<lparr>schedule :=
       Some \<lparr>days = [0], times_cfg = \<lparr>start = ''01:00'', stop = ''01:45''\<rparr>\<rparr>\<rparr>"

text \<open>
  Networks, as axios hands them to the code: one on which every call is answered with
  200, one on which every call is answered with 204, one on which the transit call is
  answered and every mapping call fails, the later call first, and one on which every
  call fails. And a provider that answers every call with 404, before axios has looked
  at the status.
\<close>

definition serverUp :: "nat \<Rightarrow> network" where
  "serverUp n req = (n, Inr \<lparr>status = 200, data = ''{predictions:[]}''\<rparr>)"

definition noContent :: "nat \<Rightarrow> network" where
  "noContent n req = (n, Inr \<lparr>status = 204, data = []\<rparr>)"

definition answers404 :: "request \<Rightarrow> nat \<times> (error + response)" where
  "answers404 req = (7, Inr \<lparr>status = 404, data = ''Resource not found''\<rparr>)"

definition mappingDown :: "nat \<Rightarrow> network" where
  "mappingDown n req =
     (if n = 0 then (5, Inr \<lparr>status = 200, data = ''{predictions:[]}''\<rparr>)
      else (30 - 10 * n, Inl (AxiosError (if n = 1 then ''timeout'' else ''ECONNREFUSED''))))"

definition networkDown :: "nat \<Rightarrow> network" where
  "networkDown n req = (n, Inl (AxiosError ''ENETUNREACH''))"

text \<open>
  Clocks on days with no change of the offset, in UTC: Monday 5 January 1970 at
  08:00:00.000, 08:30:00.000, 08:31:00.000 and 09:00:00.000, and Saturday 10 January 1970
  at 08:30:00.000.
\<close>

definition monday0800 :: moment where
  "monday0800 = ordinaryDay 345600000 1 28800000"

definition monday0830 :: moment where
  "monday0830 = ordinaryDay 345600000 1 30600000"

definition monday0831 :: moment where
  "monday0831 = ordinaryDay 345600000 1 30660000"

definition monday0900 :: moment where
  "monday0900 = ordinaryDay 345600000 1 32400000"

definition saturday0830 :: moment where
  "saturday0830 = ordinaryDay 777600000 6 30600000"

text \<open>
  Clocks in America/New_York on the two Sundays of 2021 on which the offset changes.

  On 14 March the wall clock goes from 02:00 EST to 03:00 EDT. Local midnight is the
  instant 1615698000000 (05:00 UTC). A wall time before 03:00 lies that long after
  midnight, the skipped hour from 02:00 included, which the \<^verbatim>\<open>Date\<close> constructor
  reads with the offset before the change (02:30 becomes 03:30 EDT); a wall time from
  03:00 on lies one hour less after midnight. The reading is taken at 03:15 EDT, two
  hours and a quarter after midnight.

  On 7 November the wall clock goes from 02:00 EDT back to 01:00 EST. Local midnight is
  the instant 1636257600000 (04:00 UTC). A wall time before 02:00 lies that long after
  midnight, the repeated hour from 01:00 taken at its first occurrence; a wall time from
  02:00 on lies one hour more after midnight. The reading is taken at the second 01:30,
  two hours and a half after midnight.
\<close>

definition springForward0315 :: moment where
  "springForward0315 =
     \<lparr>valueOf = 1615698000000 + 8100000, day = 0, msOfDay = 11700000,
      dateAt = (\<lambda>t. 1615698000000 + (if t < 10800000 then int t else int t - 3600000))\<rparr>"

definition fallBackSecond0130 :: moment where
  "fallBackSecond0130 =
     \<lparr>valueOf = 1636257600000 + 9000000, day = 0, msOfDay = 5400000,
      dateAt = (\<lambda>t. 1636257600000 + (if t < 7200000 then int t else int t + 3600000))\<rparr>"

text \<open>
  Surroundings: an even minute and an odd minute with the network up, an even minute with
  the mapping provider down, an even minute with the network down, and a Saturday.
\<close>

definition evenMinuteUp :: world where
  "evenMinuteUp = \<lparr>gateNow = monday0830, batchNow = monday0830, axios = serverUp\<rparr>"

definition oddMinuteUp :: world where
  "oddMinuteUp = \<lparr>gateNow = monday0831, batchNow = monday0831, axios = serverUp\<rparr>"

definition evenMinuteMappingDown :: world where
  "evenMinuteMappingDown =
     \<lparr>gateNow = monday0830, batchNow = monday0830, axios = mappingDown\<rparr>"

definition evenMinuteDown :: world where
  "evenMinuteDown = \<lparr>gateNow = monday0830, batchNow = monday0830, axios = networkDown\<rparr>"

definition saturdayUp :: world where
  "saturdayUp = \<lparr>gateNow = saturday0830, batchNow = saturday0830, axios = serverUp\<rparr>"

section \<open>Properties\<close>

subsection \<open>Reading the configured times\<close>

lemma digit_of_digit_char: "n < 10 \<Longrightarrow> digit_of (digit_char n) = Some n"
  by (simp add: digit_of_def digit_char_def)

lemma digit_of_punctuation: "digit_of CHR '':'' = None" "digit_of CHR '' '' = None"
  by (simp_all add: digit_of_def)

lemma match1to2_two_digits:
  assumes "a < 10" and "b < 10"
  shows "match1to2 (digit_char a # digit_char b # s) = Some (10 * a + b, s)"
  using assms by (simp add: digit_of_digit_char)

lemma configFromStringAndFormat_hhmm:
  assumes "h < 24" and "m < 60"
  shows "configFromStringAndFormat (hhmm h m) = Some (h, m)"
proof -
  have d: "h div 10 < 10" "h mod 10 < 10" "m div 10 < 10" "m mod 10 < 10"
    using assms by simp_all
  have n: "10 * (h div 10) + h mod 10 = h" "10 * (m div 10) + m mod 10 = m"
    by simp_all
  have hour: "match1to2 (hhmm h m) =
      Some (h, [CHR '':'', digit_char (m div 10), digit_char (m mod 10)])"
    unfolding hhmm_def using match1to2_two_digits [OF d(1,2)] n
    by simp
  have minute: "match1to2 [digit_char (m div 10), digit_char (m mod 10)] = Some (m, [])"
    using match1to2_two_digits [OF d(3,4)] n by simp
  show ?thesis
    using assms
    by (simp add: configFromStringAndFormat_def hour minute meridiemFixWrap_def
        del: match1to2.simps)
qed

lemma moment_HHmm_hhmm:
  assumes "h < 24" and "m < 60"
  shows "moment_HHmm today (hhmm h m) = Some (dateAt today (msOfHourMinute h m))"
  using assms by (simp add: moment_HHmm_def configFromStringAndFormat_hhmm)

lemma hhmm_literals:
  "hhmm 8 0 = ''08:00''" "hhmm 9 0 = ''09:00''" "hhmm 22 0 = ''22:00''" "hhmm 6 0 = ''06:00''"
  "hhmm 3 0 = ''03:00''" "hhmm 2 30 = ''02:30''" "hhmm 1 0 = ''01:00''" "hhmm 1 45 = ''01:45''"
  by code_simp+

text \<open>Other spellings that moment accepts, and one it does not.\<close>

lemma forgiving_spellings:
  "configFromStringAndFormat ''8:00'' = Some (8, 0)"
  "configFromStringAndFormat ''07:00 pm'' = Some (19, 0)"
  "configFromStringAndFormat ''12:15 am'' = Some (0, 15)"
  "configFromStringAndFormat ''24:00'' = Some (24, 0)"
  "configFromStringAndFormat ''25:00'' = None"
  "configFromStringAndFormat ''08:60'' = None"
  by code_simp+

lemma gate_scheduled:
  assumes "schedule config = Some sched"
  shows "shouldWeFetchCommuteData now config \<longleftrightarrow>
           day now \<in> set (days sched) \<and>
           isBetween now (moment_HHmm now (start (times_cfg sched)))
             (moment_HHmm now (stop (times_cfg sched)))"
  using assms by (simp add: shouldWeFetchCommuteData_def)

lemma isBetween_valid:
  "isBetween now (Some a) (Some b) \<longleftrightarrow> a < valueOf now \<and> valueOf now < b"
  by (simp add: isBetween_def)

text \<open>
  With times spelled \<^verbatim>\<open>HH:mm\<close> the gate compares three instants: today's start time,
  now, and today's stop time.
\<close>

lemma gate_compares_instants:
  assumes "schedule config = Some sched"
    and "start (times_cfg sched) = hhmm h1 m1" and "h1 < 24" and "m1 < 60"
    and "stop (times_cfg sched) = hhmm h2 m2" and "h2 < 24" and "m2 < 60"
  shows "shouldWeFetchCommuteData now config \<longleftrightarrow>
           day now \<in> set (days sched) \<and>
           dateAt now (msOfHourMinute h1 m1) < valueOf now \<and>
           valueOf now < dateAt now (msOfHourMinute h2 m2)"
proof -
  have startTime:
    "moment_HHmm now (start (times_cfg sched)) = Some (dateAt now (msOfHourMinute h1 m1))"
    using assms(2-4) by (simp add: moment_HHmm_hhmm)
  have endTime:
    "moment_HHmm now (stop (times_cfg sched)) = Some (dateAt now (msOfHourMinute h2 m2))"
    using assms(5-7) by (simp add: moment_HHmm_hhmm)
  show ?thesis
    unfolding gate_scheduled [OF assms(1)] startTime endTime isBetween_valid ..
qed

lemma sameOffset_before: "sameOffset now t \<Longrightarrow> dateAt now t < valueOf now \<longleftrightarrow> t < msOfDay now"
  by (auto simp: sameOffset_def)

lemma sameOffset_after: "sameOffset now t \<Longrightarrow> valueOf now < dateAt now t \<longleftrightarrow> msOfDay now < t"
  by (auto simp: sameOffset_def)

lemma sameOffset_ordinaryDay: "sameOffset (ordinaryDay midnight weekday t) s"
  by (simp add: sameOffset_def ordinaryDay_def)

lemma msOfHourMinute_minutes: "msOfHourMinute h m = 60000 * (h * 60 + m)"
  by (simp add: msOfHourMinute_def)

subsection \<open>What a fetch issues and returns\<close>

lemma issued_fetchNextBus:
  "issued (fetchNextBus ax config) =
     \<lparr>method' = ''get'',
      url = ''https://api.wmata.com/NextBusService.svc/json/jPredictions'',
      params = [(''StopID'', busStopId config), (''api_key'', wmataApiKey config)]\<rparr>"
  by (simp add: fetchNextBus_def Let_def split: prod.split sum.split)

lemma issued_fetchStopSchedule:
  "issued (fetchStopSchedule ax config) =
     \<lparr>method' = ''get'',
      url = ''https://api.wmata.com/Bus.svc/json/jStopSchedule'',
      params = [(''StopID'', busStopId config), (''api_key'', wmataApiKey config)]\<rparr>"
  by (simp add: fetchStopSchedule_def Let_def split: prod.split sum.split)

lemma issued_fetchTimeToWork:
  "issued (fetchTimeToWork ax config d) =
     \<lparr>method' = ''get'',
      url = ''https://maps.googleapis.com/maps/api/directions/json'',
      params =
        [(''origin'', lat (home (places config)) @ '','' @ lon (home (places config))),
         (''destination'', lat d @ '','' @ lon d),
         (''key'', googleApiKey config),
         (''mode'', ''transit'')]\<rparr>"
  by (simp add: fetchTimeToWork_def Let_def split: prod.split sum.split)

lemma outcome_fetchNextBus:
  "outcome (fetchNextBus ax config) =
     (case snd (ax (issued (fetchNextBus ax config))) of
        Inl err \<Rightarrow> Inl err
      | Inr r \<Rightarrow> Inr (if status r = 200
           then [(''data'', Payload (data r)), (''processor'', Text ''processBusPredictorData''),
                 (''success'', Flag True)]
           else [(''status'', Number (status r)), (''success'', Flag False)]))"
  unfolding issued_fetchNextBus
  by (simp add: fetchNextBus_def Let_def split: prod.split sum.split)

lemma outcome_fetchStopSchedule:
  "outcome (fetchStopSchedule ax config) =
     (case snd (ax (issued (fetchStopSchedule ax config))) of
        Inl err \<Rightarrow> Inl err
      | Inr r \<Rightarrow> Inr (if status r = 200
           then [(''data'', Payload (data r)), (''processor'', Text ''processStopData''),
                 (''success'', Flag True)]
           else [(''status'', Number (status r)), (''success'', Flag False)]))"
  unfolding issued_fetchStopSchedule
  by (simp add: fetchStopSchedule_def Let_def split: prod.split sum.split)

lemma outcome_fetchTimeToWork:
  "outcome (fetchTimeToWork ax config d) =
     (case snd (ax (issued (fetchTimeToWork ax config d))) of
        Inl err \<Rightarrow> Inl err
      | Inr r \<Rightarrow> Inr (if status r = 200
           then [(''data'', Payload (data r)), (''name'', Text (name d)),
                 (''processor'', Text ''processCommuteData''), (''success'', Flag True)]
           else [(''status'', Number (status r)), (''success'', Flag False)]))"
  unfolding issued_fetchTimeToWork
  by (simp add: fetchTimeToWork_def Let_def split: prod.split sum.split)

lemma settledAt_fetchNextBus:
  "settledAt (fetchNextBus ax config) = fst (ax (issued (fetchNextBus ax config)))"
  unfolding issued_fetchNextBus
  by (simp add: fetchNextBus_def Let_def split: prod.split sum.split)

lemma settledAt_fetchStopSchedule:
  "settledAt (fetchStopSchedule ax config) = fst (ax (issued (fetchStopSchedule ax config)))"
  unfolding issued_fetchStopSchedule
  by (simp add: fetchStopSchedule_def Let_def split: prod.split sum.split)

lemma settledAt_fetchTimeToWork:
  "settledAt (fetchTimeToWork ax config d) = fst (ax (issued (fetchTimeToWork ax config d)))"
  unfolding issued_fetchTimeToWork
  by (simp add: fetchTimeToWork_def Let_def split: prod.split sum.split)

subsection \<open>Joining promises\<close>

lemma firstRejection_None: "firstRejection ps = None \<longleftrightarrow> list_all fulfilled ps"
  by (induction ps) (auto simp: fulfilled_def split: sum.splits option.splits)

lemma firstRejection_Some:
  "firstRejection ps = Some (t, e) \<Longrightarrow> \<exists>p \<in> set ps. outcome p = Inl e \<and> settledAt p = t"
  by (induction ps arbitrary: t e) (auto split: sum.splits option.splits if_splits)

lemma resolved_all:
  "list_all fulfilled ps \<Longrightarrow> map outcome ps = map Inr (resolved ps)"
  by (induction ps) (auto simp: fulfilled_def split: sum.splits)

lemma length_resolved: "list_all fulfilled ps \<Longrightarrow> length (resolved ps) = length ps"
  by (induction ps) (auto simp: fulfilled_def split: sum.splits)

lemma promise_all_fulfilled: "list_all fulfilled ps \<Longrightarrow> promise_all ps = Inr (resolved ps)"
  using firstRejection_None [of ps] by (simp add: promise_all_def)

lemma promise_all_rejected:
  "\<not> list_all fulfilled ps \<Longrightarrow> \<exists>e. promise_all ps = Inl e \<and> (\<exists>p \<in> set ps. outcome p = Inl e)"
proof -
  assume "\<not> list_all fulfilled ps"
  then obtain t e where r: "firstRejection ps = Some (t, e)"
    using firstRejection_None [of ps] by (cases "firstRejection ps") auto
  then have "promise_all ps = Inl e" by (simp add: promise_all_def)
  with firstRejection_Some [OF r] show ?thesis by blast
qed

subsection \<open>The effects of one invocation\<close>

lemma commute_effects:
  assumes "shouldWeFetchCommuteData (gateNow w) payload"
  shows "socketNotificationReceived w ''MMM-WmataBusSchedule-FETCH_COMMUTE'' payload =
           onFetchCommute w payload nothing"
  using assms by (simp add: socketNotificationReceived_def)

lemma stop_effects:
  assumes "shouldWeFetchCommuteData (gateNow w) payload"
  shows "socketNotificationReceived w ''MMM-WmataBusSchedule-FETCH_STOP_SCHEDULE'' payload =
           onFetchStopSchedule w payload nothing"
  using assms by (simp add: socketNotificationReceived_def)

lemma onFetchCommute_nothing:
  "onFetchCommute w payload nothing =
     (let requests =
            fetchNextBus (axios w 0) payload #
            (if even (minute (batchNow w))
             then map (\<lambda>i. fetchTimeToWork (axios w (Suc i)) payload
                              (destinations (places payload) ! i))
                    [0..<length (destinations (places payload))]
             else [])
      in \<lparr>httpCalls = map issued requests,
          notifications =
            (case promise_all requests of
               Inr responses \<Rightarrow> [(''MMM-WmataBusSchedule-COMMUTE_DATA'', Many responses)]
             | Inl err \<Rightarrow> []),
          console =
            Msg ''We are fetching bus schedule/commute data'' #
            (if even (minute (batchNow w)) then []
             else [Msg ''We are not fetching the COmmute right now.'']) @
            (case promise_all requests of
               Inr responses \<Rightarrow> []
             | Inl err \<Rightarrow> [Msg ''Error firing requests to Google/WMATA APIs!'', Err err])\<rparr>)"
  by (simp add: onFetchCommute_def nothing_def console_log_def sendSocketNotification_def
      Let_def even_iff_mod_2_eq_zero split: sum.split)

lemma onFetchStopSchedule_nothing:
  "onFetchStopSchedule w payload nothing =
     (let p = fetchStopSchedule (axios w 0) payload
      in \<lparr>httpCalls = [issued p],
          notifications =
            (case outcome p of
               Inr stopSchedule \<Rightarrow> [(''MMM-WmataBusSchedule-BUS_STOP_DATA'', One stopSchedule)]
             | Inl err \<Rightarrow> []),
          console =
            (case outcome p of
               Inr stopSchedule \<Rightarrow> []
             | Inl err \<Rightarrow> [Msg ''Error firing requests to WMATA API!'', Err err])\<rparr>)"
  by (simp add: onFetchStopSchedule_def nothing_def console_log_def sendSocketNotification_def
      Let_def split: sum.split)

subsection \<open>The schedule gate\<close>

text \<open>
  Claim C1, as the code has it. Take a schedule whose times are spelled \<^verbatim>\<open>HH:mm\<close> and
  a reading of the clock at which the start and the stop time are resolved with the UTC
  offset in force (as on every day with no change of the offset). Then the gate returns
  true if and only if the current weekday is one of the configured days and the current
  time of day lies strictly between the start and the stop time, compared to the
  millisecond: the interval is open at both ends. At a time exactly equal to the start
  time, and at a time exactly equal to the stop time, the gate returns false.
\<close>

theorem gate_strictly_between:
  assumes "schedule config = Some sched"
    and "start (times_cfg sched) = hhmm h1 m1" and "h1 < 24" and "m1 < 60"
    and "stop (times_cfg sched) = hhmm h2 m2" and "h2 < 24" and "m2 < 60"
    and "sameOffset now (msOfHourMinute h1 m1)"
    and "sameOffset now (msOfHourMinute h2 m2)"
  shows "shouldWeFetchCommuteData now config \<longleftrightarrow>
           day now \<in> set (days sched) \<and>
           msOfHourMinute h1 m1 < msOfDay now \<and> msOfDay now < msOfHourMinute h2 m2"
  unfolding gate_compares_instants [OF assms(1-7)]
    sameOffset_before [OF assms(8)] sameOffset_after [OF assms(9)] ..

text \<open>
  On Monday at 08:30 the weekday schedule from 08:00 to 09:00 lets the fetch through; on
  Saturday at 08:30 and on Monday at 09:00 it does not.
\<close>

theorem gate_strictly_between_witness:
  "schedule officeHours =
     Some \<lparr>days = [1, 2, 3, 4, 5], times_cfg = \<lparr>start = ''08:00'', stop = ''09:00''\<rparr>\<rparr> \<and>
   ''08:00'' = hhmm 8 0 \<and> ''09:00'' = hhmm 9 0 \<and>
   sameOffset monday0830 (msOfHourMinute 8 0) \<and> sameOffset monday0830 (msOfHourMinute 9 0) \<and>
   shouldWeFetchCommuteData monday0830 officeHours \<and>
   sameOffset saturday0830 (msOfHourMinute 8 0) \<and>
   sameOffset saturday0830 (msOfHourMinute 9 0) \<and>
   \<not> shouldWeFetchCommuteData saturday0830 officeHours \<and>
   sameOffset monday0900 (msOfHourMinute 8 0) \<and> sameOffset monday0900 (msOfHourMinute 9 0) \<and>
   \<not> shouldWeFetchCommuteData monday0900 officeHours"
proof -
  let ?sched = "\<lparr>days = [1, 2, 3, 4, 5], times_cfg = \<lparr>start = ''08:00'', stop = ''09:00''\<rparr>\<rparr>"
  have sched: "schedule officeHours = Some ?sched"
    by (simp add: officeHours_def)
  have times: "start (times_cfg ?sched) = hhmm 8 0" "stop (times_cfg ?sched) = hhmm 9 0"
    by (simp_all add: hhmm_literals)
  have offs:
    "sameOffset monday0830 (msOfHourMinute 8 0)" "sameOffset monday0830 (msOfHourMinute 9 0)"
    "sameOffset saturday0830 (msOfHourMinute 8 0)" "sameOffset saturday0830 (msOfHourMinute 9 0)"
    "sameOffset monday0900 (msOfHourMinute 8 0)" "sameOffset monday0900 (msOfHourMinute 9 0)"
    by (simp_all add: monday0830_def saturday0830_def monday0900_def sameOffset_ordinaryDay)
  have "shouldWeFetchCommuteData monday0830 officeHours"
    using gate_strictly_between [OF sched times(1) _ _ times(2) _ _ offs(1,2)]
    by (simp add: monday0830_def ordinaryDay_def msOfHourMinute_def)
  moreover have "\<not> shouldWeFetchCommuteData saturday0830 officeHours"
    using gate_strictly_between [OF sched times(1) _ _ times(2) _ _ offs(3,4)]
    by (simp add: saturday0830_def ordinaryDay_def msOfHourMinute_def)
  moreover have "\<not> shouldWeFetchCommuteData monday0900 officeHours"
    using gate_strictly_between [OF sched times(1) _ _ times(2) _ _ offs(5,6)]
    by (simp add: monday0900_def ordinaryDay_def msOfHourMinute_def)
  ultimately show ?thesis
    using sched offs by (simp add: hhmm_literals)
qed

text \<open>
  Claim C1 as stated fails at the start time. On Monday at 08:00:00.000, a day with no
  change of the offset, with the weekday schedule from 08:00 to 09:00, the weekday is a
  configured day and the time of day is in the half-open interval from start to stop, and
  the gate returns false.
\<close>

theorem gate_start_excluded:
  "schedule officeHours =
     Some \<lparr>days = [1, 2, 3, 4, 5], times_cfg = \<lparr>start = hhmm 8 0, stop = hhmm 9 0\<rparr>\<rparr> \<and>
   day monday0800 \<in> set [1, 2, 3, 4, 5] \<and>
   msOfHourMinute 8 0 \<le> msOfDay monday0800 \<and>
   msOfDay monday0800 < msOfHourMinute 9 0 \<and>
   sameOffset monday0800 (msOfHourMinute 8 0) \<and>
   sameOffset monday0800 (msOfHourMinute 9 0) \<and>
   \<not> shouldWeFetchCommuteData monday0800 officeHours"
proof -
  let ?sched = "\<lparr>days = [1, 2, 3, 4, 5], times_cfg = \<lparr>start = ''08:00'', stop = ''09:00''\<rparr>\<rparr>"
  have sched: "schedule officeHours = Some ?sched"
    by (simp add: officeHours_def)
  have times: "start (times_cfg ?sched) = hhmm 8 0" "stop (times_cfg ?sched) = hhmm 9 0"
    by (simp_all add: hhmm_literals)
  have "\<not> shouldWeFetchCommuteData monday0800 officeHours"
    using gate_compares_instants [OF sched times(1) _ _ times(2), of monday0800]
    by (simp add: monday0800_def ordinaryDay_def msOfHourMinute_def)
  then show ?thesis
    using sched
    by (simp add: hhmm_literals monday0800_def sameOffset_ordinaryDay)
       (simp add: ordinaryDay_def msOfHourMinute_def)
qed

text \<open>
  The code compares instants, so on a day with a change of the offset the wall clock
  does not decide. At the second 01:30 of the Sunday on which the clocks go back, with a
  Sunday window from 01:00 to 01:45, the wall clock is inside the window and the gate
  returns false: the stop time is taken at the first 01:45, an hour and a quarter after
  midnight, and now is two and a half hours after midnight.
\<close>

lemma gate_on_repeated_hour:
  "day fallBackSecond0130 \<in> set [0] \<and>
   msOfHourMinute 1 0 < msOfDay fallBackSecond0130 \<and>
   msOfDay fallBackSecond0130 < msOfHourMinute 1 45 \<and>
   \<not> shouldWeFetchCommuteData fallBackSecond0130 sundayNight"
proof -
  let ?sched = "\<lparr>days = [0], times_cfg = \<lparr>start = ''01:00'', stop = ''01:45''\<rparr>\<rparr>"
  have sched: "schedule sundayNight = Some ?sched"
    by (simp add: sundayNight_def)
  have times: "start (times_cfg ?sched) = hhmm 1 0" "stop (times_cfg ?sched) = hhmm 1 45"
    by code_simp+
  have "\<not> shouldWeFetchCommuteData fallBackSecond0130 sundayNight"
    using gate_compares_instants [OF sched times(1) _ _ times(2), of fallBackSecond0130]
    by (simp add: fallBackSecond0130_def msOfHourMinute_def)
  then show ?thesis
    by (simp add: fallBackSecond0130_def msOfHourMinute_def)
qed

text \<open>
  Claim C8, as the code has it. Take a schedule whose times are spelled \<^verbatim>\<open>HH:mm\<close> and
  whose stop time is earlier in the day than its start time (an overnight window such as
  22:00 to 06:00). At every reading of the clock at which the two times are resolved with
  the UTC offset in force (as on every day with no change of the offset), whatever the
  weekday and the time of day, the gate returns false.
\<close>

theorem overnight_window_stays_closed:
  assumes "schedule config = Some sched"
    and "start (times_cfg sched) = hhmm h1 m1" and "h1 < 24" and "m1 < 60"
    and "stop (times_cfg sched) = hhmm h2 m2" and "h2 < 24" and "m2 < 60"
    and "h2 * 60 + m2 < h1 * 60 + m1"
    and "sameOffset now (msOfHourMinute h1 m1)"
    and "sameOffset now (msOfHourMinute h2 m2)"
  shows "\<not> shouldWeFetchCommuteData now config"
proof
  assume "shouldWeFetchCommuteData now config"
  then have "dateAt now (msOfHourMinute h1 m1) < valueOf now"
    and "valueOf now < dateAt now (msOfHourMinute h2 m2)"
    unfolding gate_compares_instants [OF assms(1-7)] by simp_all
  then have "msOfHourMinute h1 m1 < msOfDay now" and "msOfDay now < msOfHourMinute h2 m2"
    unfolding sameOffset_before [OF assms(9)] sameOffset_after [OF assms(10)] .
  then have "msOfHourMinute h1 m1 < msOfHourMinute h2 m2"
    by (rule less_trans)
  then show False
    using assms(8) by (simp add: msOfHourMinute_minutes)
qed

text \<open>
  On an ordinary Monday the window from 22:00 to 06:00 is closed at 08:30, between its
  two times, and so it is at any other time.
\<close>

theorem overnight_window_stays_closed_witness:
  "schedule overnight =
     Some \<lparr>days = [0, 1, 2, 3, 4, 5, 6], times_cfg = \<lparr>start = ''22:00'', stop = ''06:00''\<rparr>\<rparr> \<and>
   ''22:00'' = hhmm 22 0 \<and> ''06:00'' = hhmm 6 0 \<and> (6::nat) * 60 + 0 < 22 * 60 + 0 \<and>
   sameOffset monday0830 (msOfHourMinute 22 0) \<and>
   sameOffset monday0830 (msOfHourMinute 6 0) \<and>
   \<not> shouldWeFetchCommuteData monday0830 overnight"
proof -
  let ?sched =
    "\<lparr>days = [0, 1, 2, 3, 4, 5, 6], times_cfg = \<lparr>start = ''22:00'', stop = ''06:00''\<rparr>\<rparr>"
  have sched: "schedule overnight = Some ?sched"
    by (simp add: overnight_def)
  have times: "start (times_cfg ?sched) = hhmm 22 0" "stop (times_cfg ?sched) = hhmm 6 0"
    by (simp_all add: hhmm_literals)
  have offs:
    "sameOffset monday0830 (msOfHourMinute 22 0)" "sameOffset monday0830 (msOfHourMinute 6 0)"
    by (simp_all add: monday0830_def sameOffset_ordinaryDay)
  have "\<not> shouldWeFetchCommuteData monday0830 overnight"
    using overnight_window_stays_closed [OF sched times(1) _ _ times(2) _ _ _ offs]
    by simp
  then show ?thesis
    using sched offs by (simp add: hhmm_literals)
qed

text \<open>
  Claim C8 as stated fails on the Sunday on which the clocks go forward. The Sunday
  window from 03:00 to 02:30 has its stop time before its start time. The stop time falls
  in the skipped hour and becomes 03:30, so at 03:15 the gate returns true.
\<close>

theorem overnight_window_opens_in_skipped_hour:
  "schedule sundayGap =
     Some \<lparr>days = [0], times_cfg = \<lparr>start = hhmm 3 0, stop = hhmm 2 30\<rparr>\<rparr> \<and>
   (2::nat) * 60 + 30 < 3 * 60 + 0 \<and>
   shouldWeFetchCommuteData springForward0315 sundayGap"
proof -
  let ?sched = "\<lparr>days = [0], times_cfg = \<lparr>start = ''03:00'', stop = ''02:30''\<rparr>\<rparr>"
  have sched: "schedule sundayGap = Some ?sched"
    by (simp add: sundayGap_def)
  have times: "start (times_cfg ?sched) = hhmm 3 0" "stop (times_cfg ?sched) = hhmm 2 30"
    by (simp_all add: hhmm_literals)
  have "shouldWeFetchCommuteData springForward0315 sundayGap"
    using gate_compares_instants [OF sched times(1) _ _ times(2), of springForward0315]
    by (simp add: springForward0315_def msOfHourMinute_def)
  then show ?thesis
    using sched by (simp add: hhmm_literals)
qed

text \<open>
  Claim C9. With no schedule in the configuration the gate returns true, whatever the
  weekday and the time of day.
\<close>

theorem no_schedule_always_fetches:
  assumes "schedule config = None"
  shows "shouldWeFetchCommuteData now config"
  using assms by (simp add: shouldWeFetchCommuteData_def)

theorem no_schedule_always_fetches_witness:
  "schedule alwaysOn = None \<and> shouldWeFetchCommuteData saturday0830 alwaysOn"
  using no_schedule_always_fetches [of alwaysOn saturday0830]
  by (simp add: alwaysOn_def)

subsection \<open>The fetch operations\<close>

text \<open>
  What the Next-Bus Fetch and the Stop-Schedule Fetch return for each answer of the
  provider, with axios as the code calls it: the success record at 200, the failure
  record at any other status from 201 to 299, and no record at all at a status outside
  200 to 299, where the \<^verbatim>\<open>await\<close> throws.
\<close>

lemma fetchNextBus_by_status:
  assumes "provider (issued (fetchNextBus ax config)) = (t, Inr answer)"
  shows "outcome (fetchNextBus (axiosDefault provider) config) =
           (if status answer = 200
            then Inr [(''data'', Payload (data answer)),
                      (''processor'', Text ''processBusPredictorData''),
                      (''success'', Flag True)]
            else if validateStatus (status answer)
            then Inr [(''status'', Number (status answer)), (''success'', Flag False)]
            else Inl (RequestFailed answer))"
  using assms
  by (simp add: outcome_fetchNextBus issued_fetchNextBus axiosDefault_def validateStatus_def)

lemma fetchStopSchedule_by_status:
  assumes "provider (issued (fetchStopSchedule ax config)) = (t, Inr answer)"
  shows "outcome (fetchStopSchedule (axiosDefault provider) config) =
           (if status answer = 200
            then Inr [(''data'', Payload (data answer)),
                      (''processor'', Text ''processStopData''),
                      (''success'', Flag True)]
            else if validateStatus (status answer)
            then Inr [(''status'', Number (status answer)), (''success'', Flag False)]
            else Inl (RequestFailed answer))"
  using assms
  by (simp add: outcome_fetchStopSchedule issued_fetchStopSchedule axiosDefault_def
      validateStatus_def)

text \<open>
  Claim C3 says that for any HTTP status other than 200 the two fetches return the
  failure record with that status. The code has the branch for it and does not reach it
  at a status outside 200 to 299: when the provider answers 404, axios rejects, both
  fetches throw the error that carries the response, and no Fetch Result is returned.
\<close>

theorem not_found_is_thrown:
  "answers404 (issued (fetchNextBus (axiosDefault answers404) alwaysOn)) =
     (7, Inr \<lparr>status = 404, data = ''Resource not found''\<rparr>) \<and>
   outcome (fetchNextBus (axiosDefault answers404) alwaysOn) =
     Inl (RequestFailed \<lparr>status = 404, data = ''Resource not found''\<rparr>) \<and>
   outcome (fetchStopSchedule (axiosDefault answers404) alwaysOn) =
     Inl (RequestFailed \<lparr>status = 404, data = ''Resource not found''\<rparr>)"
proof -
  have answer: "answers404 req = (7, Inr \<lparr>status = 404, data = ''Resource not found''\<rparr>)"
    for req
    by (simp add: answers404_def)
  show ?thesis
    using
      fetchNextBus_by_status [where provider = answers404 and config = alwaysOn, OF answer]
      fetchStopSchedule_by_status [where provider = answers404 and config = alwaysOn, OF answer]
    by (simp add: answer validateStatus_def)
qed

text \<open>
  Claim C6. Every Fetch Result that one of the three fetch operations returns is exactly
  one of the two shapes: a success record (success is true and there is a payload, and no
  status), or a failure record (success is false and there is a status code, and no
  payload); never both and never neither.
\<close>

theorem fetch_result_success_or_failure:
  assumes "p = fetchNextBus ax config \<or> p = fetchStopSchedule ax config \<or>
           p = fetchTimeToWork ax config destination"
    and "outcome p = Inr r"
  shows "(successRecord r \<and> map_of r ''status'' = None \<and> \<not> failureRecord r) \<or>
         (failureRecord r \<and> map_of r ''data'' = None \<and> \<not> successRecord r)"
proof -
  consider (bus) "p = fetchNextBus ax config" | (stop) "p = fetchStopSchedule ax config"
    | (work) "p = fetchTimeToWork ax config destination"
    using assms(1) by blast
  then show ?thesis
  proof cases
    case bus
    then show ?thesis
      using assms(2)
      by (auto simp: outcome_fetchNextBus successRecord_def failureRecord_def
          split: sum.splits if_splits)
  next
    case stop
    then show ?thesis
      using assms(2)
      by (auto simp: outcome_fetchStopSchedule successRecord_def failureRecord_def
          split: sum.splits if_splits)
  next
    case work
    then show ?thesis
      using assms(2)
      by (auto simp: outcome_fetchTimeToWork successRecord_def failureRecord_def
          split: sum.splits if_splits)
  qed
qed

text \<open>The commute result of a 200 is a success record; the next-bus result of a 204 is a
  failure record.\<close>

theorem fetch_result_success_or_failure_witness:
  "outcome (fetchTimeToWork (serverUp 1) alwaysOn
      \<lparr>lat = ''38.88'', lon = ''-77.01'', name = ''Work''\<rparr>) =
     Inr [(''data'', Payload ''{predictions:[]}''), (''name'', Text ''Work''),
          (''processor'', Text ''processCommuteData''), (''success'', Flag True)] \<and>
   successRecord [(''data'', Payload ''{predictions:[]}''), (''name'', Text ''Work''),
          (''processor'', Text ''processCommuteData''), (''success'', Flag True)] \<and>
   outcome (fetchNextBus (noContent 0) alwaysOn) =
     Inr [(''status'', Number 204), (''success'', Flag False)] \<and>
   failureRecord [(''status'', Number 204), (''success'', Flag False)]"
  using
    fetch_result_success_or_failure [of
      "fetchTimeToWork (serverUp 1) alwaysOn \<lparr>lat = ''38.88'', lon = ''-77.01'', name = ''Work''\<rparr>"
      "serverUp 1" alwaysOn "\<lparr>lat = ''38.88'', lon = ''-77.01'', name = ''Work''\<rparr>"
      "[(''data'', Payload ''{predictions:[]}''), (''name'', Text ''Work''),
        (''processor'', Text ''processCommuteData''), (''success'', Flag True)]"]
    fetch_result_success_or_failure [of
      "fetchNextBus (noContent 0) alwaysOn" "noContent 0" alwaysOn
      "\<lparr>lat = ''38.88'', lon = ''-77.01'', name = ''Work''\<rparr>"
      "[(''status'', Number 204), (''success'', Flag False)]"]
  by (simp add: outcome_fetchTimeToWork issued_fetchTimeToWork outcome_fetchNextBus
      issued_fetchNextBus serverUp_def noContent_def successRecord_def failureRecord_def)



subsection \<open>The concrete surroundings\<close>

lemma gate_examples:
  "shouldWeFetchCommuteData monday0830 officeHours"
  "shouldWeFetchCommuteData monday0831 officeHours"
  "\<not> shouldWeFetchCommuteData saturday0830 officeHours"
proof -
  let ?sched = "\<lparr>days = [1, 2, 3, 4, 5], times_cfg = \<lparr>start = ''08:00'', stop = ''09:00''\<rparr>\<rparr>"
  have sched: "schedule officeHours = Some ?sched"
    by (simp add: officeHours_def)
  have times: "start (times_cfg ?sched) = hhmm 8 0" "stop (times_cfg ?sched) = hhmm 9 0"
    by (simp_all add: hhmm_literals)
  note gate = gate_compares_instants [OF sched times(1) _ _ times(2)]
  show "shouldWeFetchCommuteData monday0830 officeHours"
    using gate [of monday0830]
    by (simp add: monday0830_def ordinaryDay_def msOfHourMinute_def)
  show "shouldWeFetchCommuteData monday0831 officeHours"
    using gate [of monday0831]
    by (simp add: monday0831_def ordinaryDay_def msOfHourMinute_def)
  show "\<not> shouldWeFetchCommuteData saturday0830 officeHours"
    using gate [of saturday0830]
    by (simp add: saturday0830_def ordinaryDay_def msOfHourMinute_def)
qed

lemma minute_examples: "minute monday0830 = 30" "minute monday0831 = 31"
  by (simp_all add: minute_def monday0830_def monday0831_def ordinaryDay_def)

lemma destinations_officeHours:
  "destinations (places officeHours) =
     [\<lparr>lat = ''38.88'', lon = ''-77.01'', name = ''Work''\<rparr>,
      \<lparr>lat = ''38.92'', lon = ''-77.07'', name = ''Gym''\<rparr>]"
  by (simp add: officeHours_def)

lemma serverUp_fetchNextBus:
  "outcome (fetchNextBus (serverUp n) config) =
     Inr [(''data'', Payload ''{predictions:[]}''),
          (''processor'', Text ''processBusPredictorData''), (''success'', Flag True)]"
  by (simp add: outcome_fetchNextBus serverUp_def)

lemma serverUp_fetchTimeToWork:
  "outcome (fetchTimeToWork (serverUp n) config d) =
     Inr [(''data'', Payload ''{predictions:[]}''), (''name'', Text (name d)),
          (''processor'', Text ''processCommuteData''), (''success'', Flag True)]"
  by (simp add: outcome_fetchTimeToWork serverUp_def)

lemma mappingDown_promises:
  "outcome (fetchNextBus (mappingDown 0) config) =
     Inr [(''data'', Payload ''{predictions:[]}''),
          (''processor'', Text ''processBusPredictorData''), (''success'', Flag True)]"
  "0 < n \<Longrightarrow> outcome (fetchTimeToWork (mappingDown n) config d) =
     Inl (AxiosError (if n = 1 then ''timeout'' else ''ECONNREFUSED''))"
  "0 < n \<Longrightarrow> settledAt (fetchTimeToWork (mappingDown n) config d) = 30 - 10 * n"
  by (simp_all add: outcome_fetchNextBus outcome_fetchTimeToWork settledAt_fetchTimeToWork
      mappingDown_def)

lemma networkDown_promises:
  "outcome (fetchStopSchedule (networkDown 0) config) = Inl (AxiosError ''ENETUNREACH'')"
  "settledAt (fetchStopSchedule (networkDown 0) config) = 0"
  by (simp_all add: outcome_fetchStopSchedule settledAt_fetchStopSchedule networkDown_def)

subsection \<open>Dispatch and aggregation\<close>

text \<open>
  Claim C2. A \<^verbatim>\<open>FETCH_COMMUTE\<close> request that passes the gate issues, at an odd minute,
  exactly one call, the next-bus one, and at an even minute exactly 1 + D calls, the
  next-bus one and then one per configured destination in the order of the list (D is
  the number of destinations). When none of these fetches throws, exactly one
  notification is sent, \<^verbatim>\<open>COMMUTE_DATA\<close>, and its list has one result per call (1, or
  1 + D), in the order of the calls: the next-bus result first, then the commute results
  in destination-list order. When one throws, nothing is sent.
\<close>

theorem commute_batch:
  assumes "shouldWeFetchCommuteData (gateNow w) payload"
  shows
    "let fx = socketNotificationReceived w ''MMM-WmataBusSchedule-FETCH_COMMUTE'' payload;
         D = length (destinations (places payload));
         nextBus = fetchNextBus (axios w 0) payload;
         commutes = map (\<lambda>i. fetchTimeToWork (axios w (Suc i)) payload
                                (destinations (places payload) ! i)) [0..<D];
         requests = (if odd (minute (batchNow w)) then [nextBus] else nextBus # commutes)
     in httpCalls fx = map issued requests \<and>
        length (httpCalls fx) = (if odd (minute (batchNow w)) then 1 else 1 + D) \<and>
        (if list_all fulfilled requests
         then notifications fx =
                [(''MMM-WmataBusSchedule-COMMUTE_DATA'', Many (resolved requests))] \<and>
              length (resolved requests) = (if odd (minute (batchNow w)) then 1 else 1 + D) \<and>
              map outcome requests = map Inr (resolved requests)
         else notifications fx = [])"
proof (cases "odd (minute (batchNow w))")
  case True
  let ?ps = "[fetchNextBus (axios w 0) payload]"
  have fx: "socketNotificationReceived w ''MMM-WmataBusSchedule-FETCH_COMMUTE'' payload =
      \<lparr>httpCalls = map issued ?ps,
       notifications = (case promise_all ?ps of
          Inr responses \<Rightarrow> [(''MMM-WmataBusSchedule-COMMUTE_DATA'', Many responses)]
        | Inl err \<Rightarrow> []),
       console = Msg ''We are fetching bus schedule/commute data'' #
          [Msg ''We are not fetching the COmmute right now.''] @
          (case promise_all ?ps of Inr responses \<Rightarrow> []
           | Inl err \<Rightarrow> [Msg ''Error firing requests to Google/WMATA APIs!'', Err err])\<rparr>"
    using True by (simp add: commute_effects [OF assms] onFetchCommute_nothing Let_def)
  show ?thesis
  proof (cases "list_all fulfilled ?ps")
    case f: True
    show ?thesis
      unfolding Let_def fx using True f resolved_all [OF f] length_resolved [OF f]
      by (simp add: promise_all_fulfilled [OF f])
  next
    case f: False
    obtain e where "promise_all ?ps = Inl e" using promise_all_rejected [OF f] by blast
    then show ?thesis
      unfolding Let_def fx using True f by simp
  qed
next
  case False
  let ?ps = "fetchNextBus (axios w 0) payload #
      map (\<lambda>i. fetchTimeToWork (axios w (Suc i)) payload (destinations (places payload) ! i))
        [0..<length (destinations (places payload))]"
  have fx: "socketNotificationReceived w ''MMM-WmataBusSchedule-FETCH_COMMUTE'' payload =
      \<lparr>httpCalls = map issued ?ps,
       notifications = (case promise_all ?ps of
          Inr responses \<Rightarrow> [(''MMM-WmataBusSchedule-COMMUTE_DATA'', Many responses)]
        | Inl err \<Rightarrow> []),
       console = Msg ''We are fetching bus schedule/commute data'' #
          (case promise_all ?ps of Inr responses \<Rightarrow> []
           | Inl err \<Rightarrow> [Msg ''Error firing requests to Google/WMATA APIs!'', Err err])\<rparr>"
    using False by (simp add: commute_effects [OF assms] onFetchCommute_nothing Let_def)
  show ?thesis
  proof (cases "list_all fulfilled ?ps")
    case f: True
    show ?thesis
      unfolding Let_def fx using False f resolved_all [OF f] length_resolved [OF f]
      by (simp add: promise_all_fulfilled [OF f])
  next
    case f: False
    obtain e where "promise_all ?ps = Inl e" using promise_all_rejected [OF f] by blast
    then show ?thesis
      unfolding Let_def fx using False f by simp
  qed
qed

text \<open>
  Monday 08:30 with two destinations: three calls and a list of three results, the
  next-bus one first. Monday 08:31: one call and a list of one result.
\<close>

theorem commute_batch_witness:
  "shouldWeFetchCommuteData (gateNow evenMinuteUp) officeHours \<and>
   even (minute (batchNow evenMinuteUp)) \<and>
   length (httpCalls (socketNotificationReceived evenMinuteUp
      ''MMM-WmataBusSchedule-FETCH_COMMUTE'' officeHours)) = 3 \<and>
   notifications (socketNotificationReceived evenMinuteUp
      ''MMM-WmataBusSchedule-FETCH_COMMUTE'' officeHours) =
     [(''MMM-WmataBusSchedule-COMMUTE_DATA'',
       Many [[(''data'', Payload ''{predictions:[]}''),
              (''processor'', Text ''processBusPredictorData''), (''success'', Flag True)],
             [(''data'', Payload ''{predictions:[]}''), (''name'', Text ''Work''),
              (''processor'', Text ''processCommuteData''), (''success'', Flag True)],
             [(''data'', Payload ''{predictions:[]}''), (''name'', Text ''Gym''),
              (''processor'', Text ''processCommuteData''), (''success'', Flag True)]])] \<and>
   shouldWeFetchCommuteData (gateNow oddMinuteUp) officeHours \<and>
   odd (minute (batchNow oddMinuteUp)) \<and>
   length (httpCalls (socketNotificationReceived oddMinuteUp
      ''MMM-WmataBusSchedule-FETCH_COMMUTE'' officeHours)) = 1 \<and>
   notifications (socketNotificationReceived oddMinuteUp
      ''MMM-WmataBusSchedule-FETCH_COMMUTE'' officeHours) =
     [(''MMM-WmataBusSchedule-COMMUTE_DATA'',
       Many [[(''data'', Payload ''{predictions:[]}''),
              (''processor'', Text ''processBusPredictorData''), (''success'', Flag True)]])]"
proof -
  have ge: "shouldWeFetchCommuteData (gateNow evenMinuteUp) officeHours"
    by (simp add: evenMinuteUp_def gate_examples)
  have go: "shouldWeFetchCommuteData (gateNow oddMinuteUp) officeHours"
    by (simp add: oddMinuteUp_def gate_examples)
  have me: "even (minute (batchNow evenMinuteUp))"
    by (simp add: evenMinuteUp_def minute_examples)
  have mo: "odd (minute (batchNow oddMinuteUp))"
    by (simp add: oddMinuteUp_def minute_examples)
  have ax: "axios evenMinuteUp = serverUp" "axios oddMinuteUp = serverUp"
    by (simp_all add: evenMinuteUp_def oddMinuteUp_def)
  have u: "[0..<2] = [0, Suc 0]"
    by (simp add: upt_rec)
  have e: "length (httpCalls (socketNotificationReceived evenMinuteUp
        ''MMM-WmataBusSchedule-FETCH_COMMUTE'' officeHours)) = 3 \<and>
      notifications (socketNotificationReceived evenMinuteUp
        ''MMM-WmataBusSchedule-FETCH_COMMUTE'' officeHours) =
       [(''MMM-WmataBusSchedule-COMMUTE_DATA'',
         Many [[(''data'', Payload ''{predictions:[]}''),
                (''processor'', Text ''processBusPredictorData''), (''success'', Flag True)],
               [(''data'', Payload ''{predictions:[]}''), (''name'', Text ''Work''),
                (''processor'', Text ''processCommuteData''), (''success'', Flag True)],
               [(''data'', Payload ''{predictions:[]}''), (''name'', Text ''Gym''),
                (''processor'', Text ''processCommuteData''), (''success'', Flag True)]])]"
    using commute_batch [OF ge] me
    by (simp add: Let_def ax destinations_officeHours u fulfilled_def
        serverUp_fetchNextBus serverUp_fetchTimeToWork)
  have o: "length (httpCalls (socketNotificationReceived oddMinuteUp
        ''MMM-WmataBusSchedule-FETCH_COMMUTE'' officeHours)) = 1 \<and>
      notifications (socketNotificationReceived oddMinuteUp
        ''MMM-WmataBusSchedule-FETCH_COMMUTE'' officeHours) =
       [(''MMM-WmataBusSchedule-COMMUTE_DATA'',
         Many [[(''data'', Payload ''{predictions:[]}''),
                (''processor'', Text ''processBusPredictorData''), (''success'', Flag True)]])]"
    using commute_batch [OF go] mo
    by (simp add: Let_def ax fulfilled_def serverUp_fetchNextBus)
  show ?thesis
    using ge go me mo e o by blast
qed

text \<open>
  Claim C4. For a request of either kind, when the gate returns false no HTTP call is made
  and exactly one notification is sent, \<^verbatim>\<open>TEAR-DOWN-DOM\<close>, with no payload.
\<close>

theorem gate_closed_tears_down:
  assumes "\<not> shouldWeFetchCommuteData (gateNow w) payload"
    and "notification = ''MMM-WmataBusSchedule-FETCH_STOP_SCHEDULE'' \<or>
         notification = ''MMM-WmataBusSchedule-FETCH_COMMUTE''"
  shows "httpCalls (socketNotificationReceived w notification payload) = [] \<and>
         notifications (socketNotificationReceived w notification payload) =
           [(''MMM-WmataBusSchedule-TEAR-DOWN-DOM'', NoPayload)]"
  using assms(1)
  by (simp add: socketNotificationReceived_def sendSocketNotification_def nothing_def)

text \<open>The scenario of the specification: the weekday schedule on Saturday at 08:30.\<close>

theorem gate_closed_tears_down_witness:
  "\<not> shouldWeFetchCommuteData (gateNow saturdayUp) officeHours \<and>
   httpCalls (socketNotificationReceived saturdayUp
      ''MMM-WmataBusSchedule-FETCH_STOP_SCHEDULE'' officeHours) = [] \<and>
   notifications (socketNotificationReceived saturdayUp
      ''MMM-WmataBusSchedule-FETCH_STOP_SCHEDULE'' officeHours) =
     [(''MMM-WmataBusSchedule-TEAR-DOWN-DOM'', NoPayload)] \<and>
   httpCalls (socketNotificationReceived saturdayUp
      ''MMM-WmataBusSchedule-FETCH_COMMUTE'' officeHours) = [] \<and>
   notifications (socketNotificationReceived saturdayUp
      ''MMM-WmataBusSchedule-FETCH_COMMUTE'' officeHours) =
     [(''MMM-WmataBusSchedule-TEAR-DOWN-DOM'', NoPayload)]"
proof -
  have g: "\<not> shouldWeFetchCommuteData (gateNow saturdayUp) officeHours"
    by (simp add: saturdayUp_def gate_examples)
  show ?thesis
    using g
      gate_closed_tears_down [OF g, of "''MMM-WmataBusSchedule-FETCH_STOP_SCHEDULE''"]
      gate_closed_tears_down [OF g, of "''MMM-WmataBusSchedule-FETCH_COMMUTE''"]
    by simp
qed

text \<open>
  Claim C5. Take a request of either kind that passes the gate, and let one of the fetch
  operations it starts throw (its promise is rejected). Then the calls have all been
  issued, the error that the join reports (the rejection of one of the fetches) is caught
  and written to the console after the fixed message, and no notification is sent: the
  whole batch is dropped, with no data signal and no partial result.
\<close>

theorem thrown_fetch_drops_batch:
  assumes "shouldWeFetchCommuteData (gateNow w) payload"
    and "notification = ''MMM-WmataBusSchedule-FETCH_STOP_SCHEDULE'' \<or>
         notification = ''MMM-WmataBusSchedule-FETCH_COMMUTE''"
    and "requests =
           (if notification = ''MMM-WmataBusSchedule-FETCH_STOP_SCHEDULE''
            then [fetchStopSchedule (axios w 0) payload]
            else fetchNextBus (axios w 0) payload #
                 (if odd (minute (batchNow w)) then []
                  else map (\<lambda>i. fetchTimeToWork (axios w (Suc i)) payload
                                   (destinations (places payload) ! i))
                         [0..<length (destinations (places payload))]))"
    and "p \<in> set requests" and "outcome p = Inl thrown"
  shows "httpCalls (socketNotificationReceived w notification payload) = map issued requests \<and>
         notifications (socketNotificationReceived w notification payload) = [] \<and>
         (\<exists>err. promise_all requests = Inl err \<and> (\<exists>q \<in> set requests. outcome q = Inl err) \<and>
            console (socketNotificationReceived w notification payload) =
              (if notification = ''MMM-WmataBusSchedule-FETCH_STOP_SCHEDULE''
               then [Msg ''Error firing requests to WMATA API!'', Err err]
               else Msg ''We are fetching bus schedule/commute data'' #
                    (if odd (minute (batchNow w))
                     then [Msg ''We are not fetching the COmmute right now.''] else []) @
                    [Msg ''Error firing requests to Google/WMATA APIs!'', Err err]))"
proof -
  have "\<not> fulfilled p"
    using assms(5) by (simp add: fulfilled_def)
  then have nf: "\<not> list_all fulfilled requests"
    using assms(4) by (auto simp: list_all_iff)
  obtain err where err: "promise_all requests = Inl err" "\<exists>q \<in> set requests. outcome q = Inl err"
    using promise_all_rejected [OF nf] by blast
  show ?thesis
  proof (cases "notification = ''MMM-WmataBusSchedule-FETCH_STOP_SCHEDULE''")
    case True
    then have rq: "requests = [fetchStopSchedule (axios w 0) payload]"
      using assms(3) by simp
    from err(2) rq have "outcome (fetchStopSchedule (axios w 0) payload) = Inl err" by simp
    then show ?thesis
      using True err rq by (simp add: stop_effects [OF assms(1)] onFetchStopSchedule_nothing)
  next
    case False
    then have k: "notification = ''MMM-WmataBusSchedule-FETCH_COMMUTE''"
      using assms(2) by simp
    have rq: "requests = fetchNextBus (axios w 0) payload #
        (if even (minute (batchNow w))
         then map (\<lambda>i. fetchTimeToWork (axios w (Suc i)) payload (destinations (places payload) ! i))
                [0..<length (destinations (places payload))]
         else [])"
      using assms(3) False by simp
    show ?thesis
      using err unfolding k commute_effects [OF assms(1)] onFetchCommute_nothing Let_def rq [symmetric]
      by simp
  qed
qed

text \<open>
  Monday 08:30 with both mapping calls failing: three calls, no notification, and the
  rejection that came first on the console. A failing stop-schedule call: no notification
  and the error on the console.
\<close>

theorem thrown_fetch_drops_batch_witness:
  "shouldWeFetchCommuteData (gateNow evenMinuteMappingDown) officeHours \<and>
   outcome (fetchTimeToWork (axios evenMinuteMappingDown 1) officeHours
      \<lparr>lat = ''38.88'', lon = ''-77.01'', name = ''Work''\<rparr>) = Inl (AxiosError ''timeout'') \<and>
   length (httpCalls (socketNotificationReceived evenMinuteMappingDown
      ''MMM-WmataBusSchedule-FETCH_COMMUTE'' officeHours)) = 3 \<and>
   notifications (socketNotificationReceived evenMinuteMappingDown
      ''MMM-WmataBusSchedule-FETCH_COMMUTE'' officeHours) = [] \<and>
   console (socketNotificationReceived evenMinuteMappingDown
      ''MMM-WmataBusSchedule-FETCH_COMMUTE'' officeHours) =
     [Msg ''We are fetching bus schedule/commute data'',
      Msg ''Error firing requests to Google/WMATA APIs!'',
      Err (AxiosError ''ECONNREFUSED'')] \<and>
   shouldWeFetchCommuteData (gateNow evenMinuteDown) officeHours \<and>
   outcome (fetchStopSchedule (axios evenMinuteDown 0) officeHours) =
     Inl (AxiosError ''ENETUNREACH'') \<and>
   notifications (socketNotificationReceived evenMinuteDown
      ''MMM-WmataBusSchedule-FETCH_STOP_SCHEDULE'' officeHours) = [] \<and>
   console (socketNotificationReceived evenMinuteDown
      ''MMM-WmataBusSchedule-FETCH_STOP_SCHEDULE'' officeHours) =
     [Msg ''Error firing requests to WMATA API!'', Err (AxiosError ''ENETUNREACH'')]"
proof -
  let ?work = "\<lparr>lat = ''38.88'', lon = ''-77.01'', name = ''Work''\<rparr>"
  let ?gym = "\<lparr>lat = ''38.92'', lon = ''-77.07'', name = ''Gym''\<rparr>"
  let ?batch = "[fetchNextBus (mappingDown 0) officeHours,
                 fetchTimeToWork (mappingDown 1) officeHours ?work,
                 fetchTimeToWork (mappingDown 2) officeHours ?gym]"
  have g: "shouldWeFetchCommuteData (gateNow evenMinuteMappingDown) officeHours"
    "shouldWeFetchCommuteData (gateNow evenMinuteDown) officeHours"
    by (simp_all add: evenMinuteMappingDown_def evenMinuteDown_def gate_examples)
  have m: "even (minute (batchNow evenMinuteMappingDown))"
    by (simp add: evenMinuteMappingDown_def minute_examples)
  have ax: "axios evenMinuteMappingDown = mappingDown" "axios evenMinuteDown = networkDown"
    by (simp_all add: evenMinuteMappingDown_def evenMinuteDown_def)
  have u: "[0..<2] = [0, Suc 0]"
    by (simp add: upt_rec)
  have batch: "?batch =
      (if ''MMM-WmataBusSchedule-FETCH_COMMUTE'' = ''MMM-WmataBusSchedule-FETCH_STOP_SCHEDULE''
       then [fetchStopSchedule (axios evenMinuteMappingDown 0) officeHours]
       else fetchNextBus (axios evenMinuteMappingDown 0) officeHours #
            (if odd (minute (batchNow evenMinuteMappingDown)) then []
             else map (\<lambda>i. fetchTimeToWork (axios evenMinuteMappingDown (Suc i)) officeHours
                              (destinations (places officeHours) ! i))
                    [0..<length (destinations (places officeHours))]))"
    using m by (simp add: ax destinations_officeHours u numeral_2_eq_2 [symmetric])
  have c: "length (httpCalls (socketNotificationReceived evenMinuteMappingDown
        ''MMM-WmataBusSchedule-FETCH_COMMUTE'' officeHours)) = 3 \<and>
      notifications (socketNotificationReceived evenMinuteMappingDown
        ''MMM-WmataBusSchedule-FETCH_COMMUTE'' officeHours) = [] \<and>
      console (socketNotificationReceived evenMinuteMappingDown
        ''MMM-WmataBusSchedule-FETCH_COMMUTE'' officeHours) =
       [Msg ''We are fetching bus schedule/commute data'',
        Msg ''Error firing requests to Google/WMATA APIs!'',
        Err (AxiosError ''ECONNREFUSED'')]"
    using thrown_fetch_drops_batch [OF g(1) _ batch,
        of "fetchTimeToWork (mappingDown 1) officeHours ?work" "AxiosError ''timeout''"] m
    by (simp add: promise_all_def mappingDown_promises)
  have stop: "[fetchStopSchedule (networkDown 0) officeHours] =
      (if ''MMM-WmataBusSchedule-FETCH_STOP_SCHEDULE'' = ''MMM-WmataBusSchedule-FETCH_STOP_SCHEDULE''
       then [fetchStopSchedule (axios evenMinuteDown 0) officeHours]
       else fetchNextBus (axios evenMinuteDown 0) officeHours #
            (if odd (minute (batchNow evenMinuteDown)) then []
             else map (\<lambda>i. fetchTimeToWork (axios evenMinuteDown (Suc i)) officeHours
                              (destinations (places officeHours) ! i))
                    [0..<length (destinations (places officeHours))]))"
    by (simp add: ax)
  have s: "notifications (socketNotificationReceived evenMinuteDown
        ''MMM-WmataBusSchedule-FETCH_STOP_SCHEDULE'' officeHours) = [] \<and>
      console (socketNotificationReceived evenMinuteDown
        ''MMM-WmataBusSchedule-FETCH_STOP_SCHEDULE'' officeHours) =
       [Msg ''Error firing requests to WMATA API!'', Err (AxiosError ''ENETUNREACH'')]"
    using thrown_fetch_drops_batch [OF g(2) _ stop,
        of "fetchStopSchedule (networkDown 0) officeHours" "AxiosError ''ENETUNREACH''"]
    by (simp add: promise_all_def networkDown_promises)
  show ?thesis
    using g c s by (simp add: ax mappingDown_promises networkDown_promises)
qed

text \<open>
  Claim C10. For a notification of any other kind the entry point makes no HTTP call; when
  the gate returns true it sends no notification at all, and when the gate returns false
  it still sends the one \<^verbatim>\<open>TEAR-DOWN-DOM\<close>.
\<close>

theorem other_kind_is_ignored:
  assumes "notification \<noteq> ''MMM-WmataBusSchedule-FETCH_STOP_SCHEDULE''"
    and "notification \<noteq> ''MMM-WmataBusSchedule-FETCH_COMMUTE''"
  shows "httpCalls (socketNotificationReceived w notification payload) = [] \<and>
         notifications (socketNotificationReceived w notification payload) =
           (if shouldWeFetchCommuteData (gateNow w) payload then []
            else [(''MMM-WmataBusSchedule-TEAR-DOWN-DOM'', NoPayload)])"
  using assms
  by (simp add: socketNotificationReceived_def sendSocketNotification_def nothing_def)

theorem other_kind_is_ignored_witness:
  "''MMM-WmataBusSchedule-REFRESH'' \<noteq> ''MMM-WmataBusSchedule-FETCH_STOP_SCHEDULE'' \<and>
   ''MMM-WmataBusSchedule-REFRESH'' \<noteq> ''MMM-WmataBusSchedule-FETCH_COMMUTE'' \<and>
   shouldWeFetchCommuteData (gateNow evenMinuteUp) officeHours \<and>
   httpCalls (socketNotificationReceived evenMinuteUp
      ''MMM-WmataBusSchedule-REFRESH'' officeHours) = [] \<and>
   notifications (socketNotificationReceived evenMinuteUp
      ''MMM-WmataBusSchedule-REFRESH'' officeHours) = [] \<and>
   \<not> shouldWeFetchCommuteData (gateNow saturdayUp) officeHours \<and>
   httpCalls (socketNotificationReceived saturdayUp
      ''MMM-WmataBusSchedule-REFRESH'' officeHours) = [] \<and>
   notifications (socketNotificationReceived saturdayUp
      ''MMM-WmataBusSchedule-REFRESH'' officeHours) =
     [(''MMM-WmataBusSchedule-TEAR-DOWN-DOM'', NoPayload)]"
proof -
  have k: "''MMM-WmataBusSchedule-REFRESH'' \<noteq> ''MMM-WmataBusSchedule-FETCH_STOP_SCHEDULE''"
    "''MMM-WmataBusSchedule-REFRESH'' \<noteq> ''MMM-WmataBusSchedule-FETCH_COMMUTE''"
    by simp_all
  have g: "shouldWeFetchCommuteData (gateNow evenMinuteUp) officeHours"
    "\<not> shouldWeFetchCommuteData (gateNow saturdayUp) officeHours"
    by (simp_all add: evenMinuteUp_def saturdayUp_def gate_examples)
  show ?thesis
    using k g other_kind_is_ignored [OF k, of evenMinuteUp officeHours]
      other_kind_is_ignored [OF k, of saturdayUp officeHours]
    by simp
qed

end
